theory Spec2Isabelle
  imports Main "HOL-Library.Word"
begin

unbundle bit_operations_syntax

section \<open>UTF utilities (utf\_utils.h)\<close>

text \<open>
  A code unit of type \<open>CharT\<close> is a word whose length is the bit size of \<open>CharT\<close>:
  \<open>8 word\<close> for \<open>char\<close>, \<open>16 word\<close> for \<open>char16_t\<close>, \<open>32 word\<close> for \<open>char32_t\<close>.
  The \<open>if constexpr (sizeof(CharT) == ...)\<close> tests of the source become tests on the
  word length. The masks only look at bits of the unit itself, so the signedness of
  \<open>char\<close> plays no role.
\<close>

definition utf_char_score :: "'a::len word \<Rightarrow> int" where
  "utf_char_score ch =
     (if LENGTH('a) = 8 then
        (if ch AND 0xC0 = 0x80 then -1
         else if ch AND 0xE0 = 0xC0 then 1
         else if ch AND 0xF0 = 0xE0 then 2
         else if ch AND 0xF8 = 0xF0 then 3
         else 0)
      else if LENGTH('a) = 16 then
        (if ch AND 0xFC00 = 0xDC00 then -1
         else if ch AND 0xFC00 = 0xD800 then 1
         else 0)
      else 0)"

text \<open>The loop of \<open>utflen\<close>: \<open>cbr\<close> is the rolling sum, \<open>c\<close> the counter.\<close>

fun utflen_loop :: "'a::len word list \<Rightarrow> int \<Rightarrow> nat \<Rightarrow> nat" where
  "utflen_loop [] cbr c = c"
| "utflen_loop (x # xs) cbr c =
     (let cbr' = cbr + utf_char_score x
      in utflen_loop xs cbr' (if cbr' = 0 then c + 1 else c))"

definition utflen :: "'a::len word list \<Rightarrow> nat" where
  "utflen s = (if LENGTH('a) = 32 then length s else utflen_loop s 0 0)"

subsection \<open>Well-formed encodings\<close>

text \<open>
  The unit sequence of one code point, by the bit patterns of the encoding: in UTF-8 a
  unit with the top bit clear, or a lead unit \<open>110xxxxx\<close>, \<open>1110xxxx\<close>, \<open>11110xxx\<close>
  followed by one, two, three continuation units \<open>10xxxxxx\<close>; in UTF-16 a unit outside
  the surrogate range, or a high surrogate followed by a low surrogate.
\<close>

definition utf8_cont :: "8 word \<Rightarrow> bool" where
  "utf8_cont b = (b AND 0xC0 = 0x80)"

fun utf8_code_point :: "8 word list \<Rightarrow> bool" where
  "utf8_code_point [b0] = (b0 AND 0x80 = 0)"
| "utf8_code_point [b0, b1] = (b0 AND 0xE0 = 0xC0 \<and> utf8_cont b1)"
| "utf8_code_point [b0, b1, b2] = (b0 AND 0xF0 = 0xE0 \<and> utf8_cont b1 \<and> utf8_cont b2)"
| "utf8_code_point [b0, b1, b2, b3] =
     (b0 AND 0xF8 = 0xF0 \<and> utf8_cont b1 \<and> utf8_cont b2 \<and> utf8_cont b3)"
| "utf8_code_point _ = False"

fun utf16_code_point :: "16 word list \<Rightarrow> bool" where
  "utf16_code_point [u] = (u AND 0xF800 \<noteq> 0xD800)"
| "utf16_code_point [h, l] = (h AND 0xFC00 = 0xD800 \<and> l AND 0xFC00 = 0xDC00)"
| "utf16_code_point _ = False"

text \<open>The number of positions at which the rolling sum of the scores is zero.\<close>

definition zero_sum_positions :: "'a::len word list \<Rightarrow> nat" where
  "zero_sum_positions s =
     length (filter (\<lambda>k. sum_list (map utf_char_score (take (Suc k) s)) = 0) [0..<length s])"

section \<open>Cells (tabulator.h, class cell\_info)\<close>

text \<open>
  The model is the instantiation \<open>basic_tabulator<char>\<close>, the one the repository's
  tests use: code units are bytes. \<open>std::size_t\<close> values are natural numbers; where the
  source subtracts or adds them, the 64-bit wrap-around is written out.
\<close>

type_synonym char_type = "8 word"
type_synonym string_type = "char_type list"

text \<open>A string literal of the source, as the bytes of its characters.\<close>

definition SLI :: "string \<Rightarrow> string_type" where
  "SLI s = map of_char s"

definition size_sub :: "nat \<Rightarrow> nat \<Rightarrow> nat" where
  "size_sub a b = (if b \<le> a then a - b else a + 2 ^ 64 - b)"

definition size_add :: "nat \<Rightarrow> nat \<Rightarrow> nat" where
  "size_add a b = (a + b) mod 2 ^ 64"

datatype justify = justify_left | justify_right | justify_center

datatype truncate = truncate_none | truncate_left | truncate_right

datatype wrap = wrap_character | wrap_word

text \<open>
  What the source can do other than return: a failed \<open>assert\<close> (the debug build is
  modelled, so assertions are checked), and the reads that C++ leaves undefined.
\<close>

datatype error =
    AssertionFailed
  | EndDereferenced
  | BeginDecremented
  | FrontOfEmpty
  | IndexOutOfRange
  | Uninitialised

record cell_info =
  buf :: string_type
  width :: nat
  written :: nat
  cell_start :: bool
  justify :: justify
  truncate_policy :: truncate
  wrap :: wrap
  pad :: "string_type \<times> string_type"
  ellipsis :: string_type

definition ASCII_ELLIPSIS :: string_type where
  "ASCII_ELLIPSIS = SLI ''...''"

text \<open>U+2026 in UTF-8.\<close>

definition UTF8_ELLIPSIS :: string_type where
  "UTF8_ELLIPSIS = [0xE2, 0x80, 0xA6]"

text \<open>The member initialisers of the constructor, and the constructor with its \<open>assert\<close>.\<close>

definition cell_info_init :: "nat \<Rightarrow> string_type \<Rightarrow> string_type \<Rightarrow> string_type \<Rightarrow> cell_info" where
  "cell_info_init w lpad rpad e =
     \<lparr>buf = [], width = w, written = 0, cell_start = True,
      justify = justify_left, truncate_policy = truncate_none, wrap = wrap_character,
      pad = (lpad, rpad), ellipsis = e\<rparr>"

definition cell_info_ctor :: "nat \<Rightarrow> string_type \<Rightarrow> string_type \<Rightarrow> string_type \<Rightarrow> error + cell_info" where
  "cell_info_ctor w lpad rpad e =
     (if w = 0 \<or> w > utflen e then Inr (cell_info_init w lpad rpad e)
      else Inl AssertionFailed)"

text \<open>The constructor with its default arguments: \<open>cell_info(width)\<close>.\<close>

definition cell_info_default :: "nat \<Rightarrow> error + cell_info" where
  "cell_info_default w = cell_info_ctor w (SLI '' '') (SLI '' '') UTF8_ELLIPSIS"

text \<open>The cell that \<open>cell_info(width)\<close> constructs when its assertion holds.\<close>

abbreviation default_cell :: "nat \<Rightarrow> cell_info" where
  "default_cell w \<equiv> cell_info_init w (SLI '' '') (SLI '' '') UTF8_ELLIPSIS"

definition set_width :: "nat \<Rightarrow> cell_info \<Rightarrow> error + cell_info" where
  "set_width w c =
     (if width c = 0 \<or> width c \<ge> utflen (ellipsis c)
      then Inr (c\<lparr>width := w\<rparr>) else Inl AssertionFailed)"

definition set_justify :: "justify \<Rightarrow> cell_info \<Rightarrow> cell_info" where
  "set_justify j c = c\<lparr>justify := j\<rparr>"

definition set_truncate :: "truncate \<Rightarrow> cell_info \<Rightarrow> error + cell_info" where
  "set_truncate t c =
     (if width c = 0 \<or> width c > utflen (ellipsis c)
      then Inr (c\<lparr>truncate_policy := t\<rparr>) else Inl AssertionFailed)"

definition set_wrap :: "wrap \<Rightarrow> cell_info \<Rightarrow> cell_info" where
  "set_wrap w c = c\<lparr>wrap := w\<rparr>"

definition set_ellipsis :: "string_type \<Rightarrow> cell_info \<Rightarrow> error + cell_info" where
  "set_ellipsis e c =
     (if width c = 0 \<or> width c > utflen (ellipsis c)
      then Inr (c\<lparr>ellipsis := e\<rparr>) else Inl AssertionFailed)"

definition set_pad :: "string_type \<times> string_type \<Rightarrow> cell_info \<Rightarrow> cell_info" where
  "set_pad p c = c\<lparr>pad := p\<rparr>"

definition get_cell_width :: "cell_info \<Rightarrow> nat" where
  "get_cell_width c = size_add (size_add (width c) (utflen (fst (pad c)))) (utflen (snd (pad c)))"

definition putc :: "char_type \<Rightarrow> cell_info \<Rightarrow> cell_info" where
  "putc ch c = c\<lparr>buf := buf c @ [ch]\<rparr>"

definition cell_empty :: "cell_info \<Rightarrow> bool" where
  "cell_empty c = (buf c = [])"

text \<open>\<open>std::isspace\<close> in the "C" locale: space, and \<open>\t \n \v \f \r\<close>.\<close>

definition isspace :: "char_type \<Rightarrow> bool" where
  "isspace ch = (ch = 0x20 \<or> (0x09 \<le> ch \<and> ch \<le> 0x0D))"

text \<open>The wrapped streambuf is the sequence of characters it has received.\<close>

definition draw_fill :: "string_type \<Rightarrow> nat \<Rightarrow> string_type" where
  "draw_fill sbuf c = sbuf @ replicate c 0x20"

text \<open>
  An iterator range is the list of its elements, in iteration order, and an iterator
  into it is its distance from the start of the range. The source calls the three
  functions below on the whole buffer only: forwards (\<open>cbegin\<close>, \<open>cend\<close>) on \<open>buf\<close>
  and backwards (\<open>crbegin\<close>, \<open>crend\<close>) on \<open>rev buf\<close>.
\<close>

fun find_line_end :: "string_type \<Rightarrow> nat \<Rightarrow> int \<Rightarrow> nat" where
  "find_line_end [] w cbr = 0"
| "find_line_end (x # xs) w cbr =
     (if w = 0 then 0
      else
        let cbr' = cbr + utf_char_score x
        in if cbr' = 0
           then (if x = 0x0A then 0 else Suc (find_line_end xs (w - 1) cbr'))
           else Suc (find_line_end xs w cbr'))"

text \<open>
  \<open>k\<close> is the distance of \<open>rit\<close> from \<open>rbegin\<close>; \<open>std::next(rit).base()\<close> is then the
  position of the whitespace that was found.
\<close>

definition find_last_word :: "string_type \<Rightarrow> nat" where
  "find_last_word s =
     (let k = length (takeWhile (\<lambda>ch. \<not> isspace ch) (rev s))
      in if k = length s then length s else length s - Suc k)"

definition find_output_end :: "cell_info \<Rightarrow> string_type \<Rightarrow> nat \<Rightarrow> nat" where
  "find_output_end c s w =
     (let e = find_line_end s w 0
      in if wrap c = wrap_word \<and> e \<noteq> length s
         then
           (let e' = find_last_word (take (Suc e) s)
            in if written c > 0 \<and> utflen (take e' s) > w then 0 else e')
         else e)"

text \<open>Returns the cell with its buffer truncated, and the end iterator (a forward one).\<close>

definition truncate_buf :: "cell_info \<Rightarrow> cell_info \<times> nat" where
  "truncate_buf c =
     (if width c = 0 then (c, length (takeWhile (\<lambda>ch. ch \<noteq> 0x0A) (buf c)))
      else if truncate_policy c = truncate_none
      then (c, find_output_end c (buf c) (size_sub (width c) (written c)))
      else if utflen (buf c) > width c
      then
        (let w = size_sub (width c) (utflen (ellipsis c))
         in if truncate_policy c = truncate_right
            then
              (let e = find_output_end c (buf c) w;
                   b1 = take e (buf c);
                   b2 = (if b1 \<noteq> [] then b1 @ ellipsis c else b1)
               in (c\<lparr>buf := b2\<rparr>, length b2))
            else
              (let e = find_output_end c (rev (buf c)) w;
                   b1 = drop (length (buf c) - e) (buf c);
                   b2 = (if b1 \<noteq> [] then ellipsis c @ b1 else b1)
               in (c\<lparr>buf := b2\<rparr>, length b2)))
      else (c, length (buf c)))"

text \<open>
  The loop of \<open>write_line\<close> that walks \<open>end\<close> back while \<open>out_width > _width\<close>. It reads
  \<open>*end\<close> before it decrements \<open>end\<close>: at \<open>end = cend()\<close> the read is undefined, and so
  is decrementing \<open>begin()\<close>.
\<close>

fun trim_end :: "string_type \<Rightarrow> nat \<Rightarrow> nat \<Rightarrow> nat \<Rightarrow> int \<Rightarrow> error + nat \<times> nat" where
  "trim_end b w e out_width sm =
     (if out_width > w
      then
        (if e \<ge> length b then Inl EndDereferenced
         else if e = 0 then Inl BeginDecremented
         else
           (let sm' = sm + utf_char_score (b ! e)
            in trim_end b w (e - 1) (if sm' = 0 then out_width - 1 else out_width) sm'))
      else Inr (e, out_width))"

definition fills :: "justify \<Rightarrow> nat \<Rightarrow> nat \<times> nat" where
  "fills j total_fill =
     (case j of
        justify_center \<Rightarrow> (total_fill div 2, total_fill - total_fill div 2)
      | justify_left \<Rightarrow> (0, total_fill)
      | justify_right \<Rightarrow> (total_fill, 0))"

text \<open>
  \<open>write_line\<close> returns the cell, the wrapped streambuf and \<open>wrote_full\<close>. The second
  part, from the drain of the buffer on, is \<open>write_line_tail\<close>; \<open>_buf.front()\<close> is
  evaluated only when \<open>wrote_full\<close> is still false (\<open>||\<close> short-circuits), and it is
  undefined on an empty deque.
\<close>

definition write_line_tail ::
  "cell_info \<Rightarrow> string_type \<Rightarrow> nat \<Rightarrow> nat \<Rightarrow> nat \<Rightarrow> bool \<Rightarrow> error + cell_info \<times> string_type \<times> bool" where
  "write_line_tail c sbuf end out_width rfill wrote_full =
     (let sbuf1 = sbuf @ take end (buf c);
          b1 = drop end (buf c)
      in if \<not> wrote_full \<and> b1 = [] then Inl FrontOfEmpty
         else
           (let wrote_full1 = (if wrote_full then True else hd b1 = 0x0A);
                b2 = (if b1 \<noteq> [] \<and> isspace (hd b1) then tl b1 else b1);
                b3 = (if wrap c = wrap_word then dropWhile isspace b2 else b2);
                wrote_full2 = (wrote_full1 \<or> b3 \<noteq> [])
            in if wrote_full2
               then Inr (c\<lparr>buf := b3, cell_start := True, written := 0\<rparr>,
                         draw_fill sbuf1 rfill @ snd (pad c), True)
               else Inr (c\<lparr>buf := b3, written := out_width\<rparr>, sbuf1, False)))"

definition write_line ::
  "cell_info \<Rightarrow> string_type \<Rightarrow> bool \<Rightarrow> error + cell_info \<times> string_type \<times> bool" where
  "write_line c sbuf write_full_line =
     (if write_full_line \<or> truncate_policy c = truncate_none
      then
        (let (c1, end0) = truncate_buf c;
             out_width0 = size_add (utflen (take end0 (buf c1))) (written c1)
         in if \<not> write_full_line \<and> out_width0 < width c1 \<and> justify c1 \<noteq> justify_left
            then Inr (c1, sbuf, write_full_line)
            else
              (case (if width c1 > 0 then trim_end (buf c1) (width c1) end0 out_width0 0
                     else Inr (end0, out_width0)) of
                 Inl err \<Rightarrow> Inl err
               | Inr (end, out_width) \<Rightarrow>
                   (let wrote_full =
                          (if width c1 > 0 then write_full_line \<or> out_width = width c1
                           else write_full_line);
                        (lfill, rfill) =
                          (if width c1 > 0 then fills (justify c1) (width c1 - out_width)
                           else (0, 0));
                        sbuf1 = (if cell_start c1 then draw_fill (sbuf @ fst (pad c1)) lfill
                                 else sbuf)
                    in write_line_tail (c1\<lparr>cell_start := False\<rparr>) sbuf1 end out_width rfill
                         wrote_full)))
      else Inr (c, sbuf, write_full_line))"

section \<open>Styles (tabulator.h, struct style\_info)\<close>

record row =
  row_left :: string_type
  row_center :: string_type
  row_right :: string_type
  row_line :: string_type

record style_info =
  style_top :: row
  style_middle :: row
  style_bottom :: row
  style_cell :: row

definition NUL :: string_type where
  "NUL = []"

definition PLUS :: string_type where
  "PLUS = SLI ''+''"

definition PIPE :: string_type where
  "PIPE = SLI ''|''"

definition DASH :: string_type where
  "DASH = SLI ''-''"

definition ascii :: style_info where
  "ascii =
     \<lparr>style_top = \<lparr>row_left = PLUS, row_center = PLUS, row_right = PLUS, row_line = DASH\<rparr>,
      style_middle = \<lparr>row_left = PLUS, row_center = PLUS, row_right = PLUS, row_line = DASH\<rparr>,
      style_bottom = \<lparr>row_left = PLUS, row_center = PLUS, row_right = PLUS, row_line = DASH\<rparr>,
      style_cell = \<lparr>row_left = PIPE, row_center = PIPE, row_right = PIPE, row_line = NUL\<rparr>\<rparr>"

section \<open>The tabulator (tabulator.h, class basic\_tabulator)\<close>

text \<open>
  A streambuf is known by its address. The output stream holds the address of its
  current streambuf; the tabulator holds the address of the streambuf it wraps
  (\<open>_real_sb\<close>), and the functions that write to \<open>*_real_sb\<close> take and return the
  characters that streambuf has received. A member the constructor leaves out of its
  initialiser list has an indeterminate value: \<open>None\<close>; reading it is undefined.
\<close>

type_synonym sb_ptr = nat

record ostream =
  rdbuf :: sb_ptr

record tabulator =
  cells :: "cell_info list"
  column :: nat
  sync_column :: nat
  line_start :: "bool option"
  real_sb :: sb_ptr
  style :: style_info

text \<open>
  The constructor taking \<open>cells_type&&\<close>; \<open>this\<close> is the address of the new tabulator.
  It returns the tabulator and the stream, whose streambuf is now the tabulator.
\<close>

definition basic_tabulator :: "sb_ptr \<Rightarrow> ostream \<Rightarrow> cell_info list \<Rightarrow> tabulator \<times> ostream" where
  "basic_tabulator this os cs =
     (\<lparr>cells = cs, column = 0, sync_column = 0, line_start = Some True,
       real_sb = rdbuf os, style = ascii\<rparr>,
      os\<lparr>rdbuf := this\<rparr>)"

text \<open>The constructor taking \<open>cells_type const&\<close>: no initialiser for \<open>_line_start\<close>.\<close>

definition basic_tabulator_copy :: "sb_ptr \<Rightarrow> ostream \<Rightarrow> cell_info list \<Rightarrow> tabulator \<times> ostream" where
  "basic_tabulator_copy this os cs =
     (\<lparr>cells = cs, column = 0, sync_column = 0, line_start = None,
       real_sb = rdbuf os, style = ascii\<rparr>,
      os\<lparr>rdbuf := this\<rparr>)"

text \<open>
  The destructor: \<open>_os.rdbuf(_real_sb)\<close>, and nothing else. It takes the stream and the
  characters the wrapped streambuf has received, and returns both.
\<close>

definition destructor :: "tabulator \<Rightarrow> ostream \<times> string_type \<Rightarrow> ostream \<times> string_type" where
  "destructor t st = ((fst st)\<lparr>rdbuf := real_sb t\<rparr>, snd st)"

definition set_style :: "style_info \<Rightarrow> tabulator \<Rightarrow> tabulator" where
  "set_style s t = t\<lparr>style := s\<rparr>"

text \<open>\<open>get_current_cell\<close> is \<open>_cells[_column]\<close>: undefined when the index is out of range.\<close>

definition on_current_cell ::
  "(cell_info \<Rightarrow> error + cell_info) \<Rightarrow> tabulator \<Rightarrow> error + tabulator" where
  "on_current_cell f t =
     (if column t < length (cells t)
      then (case f (cells t ! column t) of
              Inl err \<Rightarrow> Inl err
            | Inr c \<Rightarrow> Inr (t\<lparr>cells := (cells t)[column t := c]\<rparr>))
      else Inl IndexOutOfRange)"

definition tab_set_width :: "nat \<Rightarrow> tabulator \<Rightarrow> error + tabulator" where
  "tab_set_width w = on_current_cell (set_width w)"

definition tab_set_justify :: "justify \<Rightarrow> tabulator \<Rightarrow> error + tabulator" where
  "tab_set_justify j = on_current_cell (\<lambda>c. Inr (set_justify j c))"

definition tab_set_truncate :: "truncate \<Rightarrow> tabulator \<Rightarrow> error + tabulator" where
  "tab_set_truncate tr = on_current_cell (set_truncate tr)"

definition tab_set_wrap :: "wrap \<Rightarrow> tabulator \<Rightarrow> error + tabulator" where
  "tab_set_wrap w = on_current_cell (\<lambda>c. Inr (set_wrap w c))"

definition tab_set_pad :: "string_type \<times> string_type \<Rightarrow> tabulator \<Rightarrow> error + tabulator" where
  "tab_set_pad p = on_current_cell (\<lambda>c. Inr (set_pad p c))"

definition tab_set_ellipsis :: "string_type \<Rightarrow> tabulator \<Rightarrow> error + tabulator" where
  "tab_set_ellipsis e = on_current_cell (set_ellipsis e)"

text \<open>
  \<open>overflow\<close>, for \<open>std::char_traits<char>\<close>: \<open>int_type\<close> is \<open>int\<close>, \<open>eof()\<close> is \<open>-1\<close>,
  \<open>to_char_type\<close> keeps the low byte and \<open>to_int_type\<close> reads a character as an
  \<open>unsigned char\<close>. \<open>not_eof\<close> returns an \<open>int_type\<close>: its argument when that is not
  \<open>eof()\<close>, and 0 otherwise; \<open>overflow\<close> uses the returned value as the condition of
  its \<open>if\<close>, which is whether it is not 0. The function returns \<open>ch\<close>, which the model
  leaves out.
\<close>

definition eof :: int where
  "eof = -1"

definition not_eof :: "int \<Rightarrow> int" where
  "not_eof ch = (if ch = eof then 0 else ch)"

definition to_char_type :: "int \<Rightarrow> char_type" where
  "to_char_type ch = word_of_int ch"

definition to_int_type :: "char_type \<Rightarrow> int" where
  "to_int_type ch = uint ch"

definition overflow :: "int \<Rightarrow> tabulator \<Rightarrow> error + tabulator" where
  "overflow ch t =
     (if not_eof ch \<noteq> 0 then on_current_cell (\<lambda>c. Inr (putc (to_char_type ch) c)) t else Inr t)"

definition draw_column_sep :: "string_type \<Rightarrow> string_type \<Rightarrow> string_type" where
  "draw_column_sep sbuf vline = (if vline \<noteq> [] then sbuf @ vline else sbuf)"

definition any_nonempty :: "cell_info list \<Rightarrow> bool" where
  "any_nonempty cs = list_ex (\<lambda>c. \<not> cell_empty c) cs"

text \<open>The lambda \<open>more\<close> of \<open>flush\<close>: whether the loop goes on.\<close>

definition flush_more :: "bool \<Rightarrow> tabulator \<Rightarrow> bool" where
  "flush_more all_cells t =
     (if (\<not> all_cells \<and> sync_column t < column t) \<or> (all_cells \<and> sync_column t > 0)
      then True
      else any_nonempty (drop (if all_cells then 0 else sync_column t) (cells t)))"

text \<open>A partial row is pending: a cell holds characters, or the column is not the first.\<close>

definition pending_row :: "tabulator \<Rightarrow> bool" where
  "pending_row t = (any_nonempty (cells t) \<or> column t > 0)"

definition indices_ok :: "tabulator \<Rightarrow> bool" where
  "indices_ok t = (sync_column t < length (cells t) \<and> column t < length (cells t))"

text \<open>One iteration of the loop of \<open>flush\<close>.\<close>

definition flush_step ::
  "bool \<Rightarrow> tabulator \<times> string_type \<Rightarrow> error + tabulator \<times> string_type" where
  "flush_step all_cells st =
     (let t = fst st; sbuf = snd st
      in case line_start t of
           None \<Rightarrow> Inl Uninitialised
         | Some ls \<Rightarrow>
            (let sbuf1 = (if ls then draw_column_sep sbuf (row_left (style_cell (style t)))
                          else sbuf);
                 full_cell = (all_cells \<or> sync_column t \<noteq> column t \<or>
                              any_nonempty (drop (sync_column t + 1) (cells t)))
             in if \<not> indices_ok t then Inl AssertionFailed
                else
                  (case write_line (cells t ! sync_column t) sbuf1 full_cell of
                     Inl err \<Rightarrow> Inl err
                   | Inr (c, sbuf2, full) \<Rightarrow>
                      (let t1 = t\<lparr>cells := (cells t)[sync_column t := c],
                                  line_start := Some False\<rparr>
                       in if full
                          then
                            (if sync_column t + 1 = length (cells t)
                             then Inr (t1\<lparr>line_start := Some True, sync_column := 0\<rparr>,
                                       draw_column_sep sbuf2 (row_right (style_cell (style t)))
                                         @ [0x0A])
                             else Inr (t1\<lparr>sync_column := sync_column t + 1\<rparr>,
                                       draw_column_sep sbuf2 (row_center (style_cell (style t)))))
                          else Inr (t1, sbuf2)))))"

text \<open>
  The loop of \<open>flush\<close> need not end (a cell that \<open>write_line\<close> leaves untouched keeps
  \<open>more\<close> true), so not returning is the value \<open>None\<close>.
\<close>

partial_function (option) flush_loop ::
  "bool \<Rightarrow> tabulator \<times> string_type \<Rightarrow> (error + tabulator \<times> string_type) option" where
  "flush_loop all_cells st =
     (if flush_more all_cells (fst st)
      then (case flush_step all_cells st of
              Inl err \<Rightarrow> Some (Inl err)
            | Inr st' \<Rightarrow> flush_loop all_cells st')
      else Some (Inr st))"

definition flush ::
  "bool \<Rightarrow> tabulator \<times> string_type \<Rightarrow> (error + tabulator \<times> string_type) option" where
  "flush all_cells st =
     (if indices_ok (fst st) then flush_loop all_cells st else Some (Inl AssertionFailed))"

text \<open>\<open>sync\<close>; the result of \<open>pubsync\<close> on the wrapped streambuf is left out.\<close>

definition sync :: "tabulator \<times> string_type \<Rightarrow> (error + tabulator \<times> string_type) option" where
  "sync st = flush False st"

definition next_column ::
  "tabulator \<times> string_type \<Rightarrow> (error + tabulator \<times> string_type) option" where
  "next_column st =
     (let t = fst st
      in if \<not> indices_ok t then Some (Inl AssertionFailed)
         else if column t + 1 = length (cells t)
         then flush True (t\<lparr>column := 0\<rparr>, snd st)
         else Some (Inr (t\<lparr>column := column t + 1\<rparr>, snd st)))"

text \<open>
  The loop of \<open>draw_segment\<close>; it does not end when the score of the units of \<open>line\<close>
  never returns to zero. The width it starts from is the sum \<open>get_cell_width\<close> computes,
  which \<open>draw_segment\<close> writes out again.
\<close>

partial_function (option) draw_segment_loop ::
  "string_type \<Rightarrow> nat \<Rightarrow> int \<Rightarrow> nat \<Rightarrow> string_type \<Rightarrow> string_type option" where
  "draw_segment_loop line i score w sbuf =
     (if w > 0
      then
        (let score' = score + utf_char_score (line ! i);
             sbuf' = sbuf @ [line ! i];
             i' = (if i + 1 = length line then 0 else i + 1)
         in draw_segment_loop line i' score' (if score' = 0 then w - 1 else w) sbuf')
      else Some sbuf)"

definition draw_segment ::
  "cell_info \<Rightarrow> string_type \<Rightarrow> string_type \<Rightarrow> string_type \<Rightarrow> string_type option" where
  "draw_segment c left line sbuf =
     (if line \<noteq> [] then draw_segment_loop line 0 0 (get_cell_width c) (sbuf @ left)
      else Some (sbuf @ left))"

text \<open>The \<open>for_each\<close> of \<open>draw_line\<close> over the cells after the first.\<close>

fun draw_segments ::
  "cell_info list \<Rightarrow> string_type \<Rightarrow> string_type \<Rightarrow> string_type \<Rightarrow> string_type option" where
  "draw_segments [] tee line sbuf = Some sbuf"
| "draw_segments (c # cs) tee line sbuf =
     (case draw_segment c tee line sbuf of
        None \<Rightarrow> None
      | Some sbuf' \<Rightarrow> draw_segments cs tee line sbuf')"

text \<open>The part of \<open>draw_line\<close> after the row in progress has been flushed.\<close>

definition draw_line_rule ::
  "row \<Rightarrow> tabulator \<times> string_type \<Rightarrow> (error + tabulator \<times> string_type) option" where
  "draw_line_rule r st =
     (let t = fst st
      in if \<not> indices_ok t then Some (Inl AssertionFailed)
         else
           (case draw_segment (hd (cells t)) (row_left r) (row_line r) (snd st) of
              None \<Rightarrow> None
            | Some sbuf1 \<Rightarrow>
               (case draw_segments (tl (cells t)) (row_center r) (row_line r) sbuf1 of
                  None \<Rightarrow> None
                | Some sbuf2 \<Rightarrow> Some (Inr (t, sbuf2 @ row_right r @ [0x0A])))))"

definition draw_line ::
  "row \<Rightarrow> tabulator \<times> string_type \<Rightarrow> (error + tabulator \<times> string_type) option" where
  "draw_line r st =
     (let t = fst st
      in if \<not> indices_ok t then Some (Inl AssertionFailed)
         else if column t \<noteq> 0
         then
           (case flush True (t\<lparr>column := 0\<rparr>, snd st) of
              None \<Rightarrow> None
            | Some (Inl err) \<Rightarrow> Some (Inl err)
            | Some (Inr st') \<Rightarrow> draw_line_rule r st')
         else draw_line_rule r st)"

definition top_line :: "tabulator \<times> string_type \<Rightarrow> (error + tabulator \<times> string_type) option" where
  "top_line st = draw_line (style_top (style (fst st))) st"

definition horiz_line :: "tabulator \<times> string_type \<Rightarrow> (error + tabulator \<times> string_type) option" where
  "horiz_line st = draw_line (style_middle (style (fst st))) st"

definition bottom_line :: "tabulator \<times> string_type \<Rightarrow> (error + tabulator \<times> string_type) option" where
  "bottom_line st = draw_line (style_bottom (style (fst st))) st"

section \<open>The stream side\<close>

text \<open>
  What \<open>os << ...\<close> does once the tabulator is the stream's streambuf. The tabulator
  sets no put area, so every character written reaches \<open>overflow\<close>; the manipulators
  call the member functions. \<open>operator<<\<close> has no branch for the value that
  \<open>set_ellipsis\<close> builds, so there is no manipulator for the ellipsis; \<open>Flush\<close> is
  \<open>std::flush\<close>, which reaches \<open>sync\<close>.
\<close>

datatype manip =
    Put char_type
  | Endc
  | Top_line
  | Horiz_line
  | Bottom_line
  | Flush
  | Set_width nat
  | Set_justify justify
  | Set_truncate truncate
  | Set_wrap wrap
  | Set_pad "string_type \<times> string_type"
  | Set_style style_info

definition lift_tab ::
  "(tabulator \<Rightarrow> error + tabulator) \<Rightarrow> tabulator \<times> string_type
     \<Rightarrow> (error + tabulator \<times> string_type) option" where
  "lift_tab f st = (case f (fst st) of Inl err \<Rightarrow> Some (Inl err) | Inr t \<Rightarrow> Some (Inr (t, snd st)))"

fun apply_manip ::
  "manip \<Rightarrow> tabulator \<times> string_type \<Rightarrow> (error + tabulator \<times> string_type) option" where
  "apply_manip (Put ch) st = lift_tab (overflow (to_int_type ch)) st"
| "apply_manip Endc st = next_column st"
| "apply_manip Top_line st = top_line st"
| "apply_manip Horiz_line st = horiz_line st"
| "apply_manip Bottom_line st = bottom_line st"
| "apply_manip Flush st = sync st"
| "apply_manip (Set_width w) st = lift_tab (tab_set_width w) st"
| "apply_manip (Set_justify j) st = lift_tab (tab_set_justify j) st"
| "apply_manip (Set_truncate tr) st = lift_tab (tab_set_truncate tr) st"
| "apply_manip (Set_wrap w) st = lift_tab (tab_set_wrap w) st"
| "apply_manip (Set_pad p) st = lift_tab (tab_set_pad p) st"
| "apply_manip (Set_style s) st = Some (Inr (set_style s (fst st), snd st))"

fun run :: "manip list \<Rightarrow> tabulator \<times> string_type \<Rightarrow> (error + tabulator \<times> string_type) option" where
  "run [] st = Some (Inr st)"
| "run (m # ms) st =
     (case apply_manip m st of
        None \<Rightarrow> None
      | Some (Inl err) \<Rightarrow> Some (Inl err)
      | Some (Inr st') \<Rightarrow> run ms st')"

text \<open>\<open>os << "..."\<close>: the characters of a string, one \<open>Put\<close> each.\<close>

definition put_string :: "string \<Rightarrow> manip list" where
  "put_string s = map Put (SLI s)"

declare flush_loop.simps [code]
declare draw_segment_loop.simps [code]

section \<open>Counting code points\<close>

lemma and_mask_sub:
  fixes b :: "'a::len word"
  assumes "b AND m = v" and "m AND n = n"
  shows "b AND n = v AND n"
proof -
  have "b AND n = b AND (m AND n)" using assms(2) by simp
  also have "\<dots> = (b AND m) AND n" by (simp add: and.assoc)
  finally show ?thesis using assms(1) by simp
qed

lemma score8_ascii: "(b::8 word) AND 0x80 = 0 \<Longrightarrow> utf_char_score b = 0"
proof -
  assume a: "b AND 0x80 = 0"
  have 1: "b AND 0xC0 \<noteq> 0x80"
  proof
    assume e: "b AND 0xC0 = 0x80"
    from and_mask_sub[OF e, where n="0x80"] a show False by simp
  qed
  have 2: "b AND 0xE0 \<noteq> 0xC0"
  proof
    assume e: "b AND 0xE0 = 0xC0"
    from and_mask_sub[OF e, where n="0x80"] a show False by simp
  qed
  have 3: "b AND 0xF0 \<noteq> 0xE0"
  proof
    assume e: "b AND 0xF0 = 0xE0"
    from and_mask_sub[OF e, where n="0x80"] a show False by simp
  qed
  have 4: "b AND 0xF8 \<noteq> 0xF0"
  proof
    assume e: "b AND 0xF8 = 0xF0"
    from and_mask_sub[OF e, where n="0x80"] a show False by simp
  qed
  show ?thesis using 1 2 3 4 by (simp add: utf_char_score_def)
qed

lemma score8_cont: "utf8_cont b \<Longrightarrow> utf_char_score b = -1"
  by (simp add: utf_char_score_def utf8_cont_def)

lemma score8_lead2: "(b::8 word) AND 0xE0 = 0xC0 \<Longrightarrow> utf_char_score b = 1"
proof -
  assume e: "b AND 0xE0 = 0xC0"
  from and_mask_sub[OF e, where n="0xC0"] have "b AND 0xC0 \<noteq> 0x80" by simp
  then show ?thesis using e by (simp add: utf_char_score_def)
qed

lemma score8_lead3: "(b::8 word) AND 0xF0 = 0xE0 \<Longrightarrow> utf_char_score b = 2"
proof -
  assume e: "b AND 0xF0 = 0xE0"
  from and_mask_sub[OF e, where n="0xC0"] have 1: "b AND 0xC0 \<noteq> 0x80" by simp
  from and_mask_sub[OF e, where n="0xE0"] have 2: "b AND 0xE0 \<noteq> 0xC0" by simp
  show ?thesis using 1 2 e by (simp add: utf_char_score_def)
qed

lemma score8_lead4: "(b::8 word) AND 0xF8 = 0xF0 \<Longrightarrow> utf_char_score b = 3"
proof -
  assume e: "b AND 0xF8 = 0xF0"
  from and_mask_sub[OF e, where n="0xC0"] have 1: "b AND 0xC0 \<noteq> 0x80" by simp
  from and_mask_sub[OF e, where n="0xE0"] have 2: "b AND 0xE0 \<noteq> 0xC0" by simp
  from and_mask_sub[OF e, where n="0xF0"] have 3: "b AND 0xF0 \<noteq> 0xE0" by simp
  show ?thesis using 1 2 3 e by (simp add: utf_char_score_def)
qed

text \<open>The units of one code point take the rolling sum from zero back to zero, once.\<close>

lemma utflen_loop_cp8:
  assumes "utf8_code_point cp"
  shows "utflen_loop (cp @ rest) 0 c = utflen_loop rest 0 (Suc c)"
  using assms
  by (induction cp rule: utf8_code_point.induct)
     (simp_all add: score8_ascii score8_cont score8_lead2 score8_lead3 score8_lead4)

lemma utflen_loop_concat8:
  "\<forall>cp\<in>set cps. utf8_code_point cp \<Longrightarrow> utflen_loop (concat cps) 0 c = c + length cps"
  by (induction cps arbitrary: c) (simp_all add: utflen_loop_cp8)

lemma score16_single: "(u::16 word) AND 0xF800 \<noteq> 0xD800 \<Longrightarrow> utf_char_score u = 0"
proof -
  assume a: "u AND 0xF800 \<noteq> 0xD800"
  have 1: "u AND 0xFC00 \<noteq> 0xDC00"
  proof
    assume e: "u AND 0xFC00 = 0xDC00"
    from and_mask_sub[OF e, where n="0xF800"] a show False by simp
  qed
  have 2: "u AND 0xFC00 \<noteq> 0xD800"
  proof
    assume e: "u AND 0xFC00 = 0xD800"
    from and_mask_sub[OF e, where n="0xF800"] a show False by simp
  qed
  show ?thesis using 1 2 by (simp add: utf_char_score_def)
qed

lemma score16_high: "(u::16 word) AND 0xFC00 = 0xD800 \<Longrightarrow> utf_char_score u = 1"
  by (simp add: utf_char_score_def)

lemma score16_low: "(u::16 word) AND 0xFC00 = 0xDC00 \<Longrightarrow> utf_char_score u = -1"
  by (simp add: utf_char_score_def)

lemma utflen_loop_cp16:
  assumes "utf16_code_point cp"
  shows "utflen_loop (cp @ rest) 0 c = utflen_loop rest 0 (Suc c)"
  using assms
  by (induction cp rule: utf16_code_point.induct)
     (simp_all add: score16_single score16_high score16_low)

lemma utflen_loop_concat16:
  "\<forall>cp\<in>set cps. utf16_code_point cp \<Longrightarrow> utflen_loop (concat cps) 0 c = c + length cps"
  by (induction cps arbitrary: c) (simp_all add: utflen_loop_cp16)

text \<open>The counter goes up exactly at the positions where the rolling sum is zero.\<close>

lemma utflen_loop_positions:
  "utflen_loop s cbr c =
     c + length (filter (\<lambda>k. cbr + sum_list (map utf_char_score (take (Suc k) s)) = 0)
                   [0..<length s])"
proof (induction s arbitrary: cbr c)
  case Nil
  then show ?case by simp
next
  case (Cons x xs)
  have up: "[0..<length (x # xs)] = 0 # map Suc [0..<length xs]"
    by (simp add: upt_conv_Cons map_Suc_upt del: upt_Suc)
  show ?case
    unfolding up by (simp add: Cons.IH filter_map comp_def Let_def add.assoc)
qed

text \<open>
  Claim C4. On a sequence of well-formed UTF-8 (or UTF-16) code points, \<open>utflen\<close> is
  the number of code points, a multi-unit code point counting once; on any sequence
  of 8-bit or 16-bit units it is the number of positions at which the rolling sum of
  \<open>utf_char_score\<close> is zero; on 32-bit units it is the number of units.
\<close>

theorem utflen_counts_code_points:
  fixes cps8 :: "8 word list list" and cps16 :: "16 word list list"
    and s8 :: "8 word list" and s16 :: "16 word list" and s32 :: "32 word list"
  shows "((\<forall>cp\<in>set cps8. utf8_code_point cp) \<longrightarrow> utflen (concat cps8) = length cps8) \<and>
         ((\<forall>cp\<in>set cps16. utf16_code_point cp) \<longrightarrow> utflen (concat cps16) = length cps16) \<and>
         utflen s8 = zero_sum_positions s8 \<and>
         utflen s16 = zero_sum_positions s16 \<and>
         utflen s32 = length s32"
proof (intro conjI impI)
  assume "\<forall>cp\<in>set cps8. utf8_code_point cp"
  then show "utflen (concat cps8) = length cps8"
    by (simp add: utflen_def utflen_loop_concat8)
next
  assume "\<forall>cp\<in>set cps16. utf16_code_point cp"
  then show "utflen (concat cps16) = length cps16"
    by (simp add: utflen_def utflen_loop_concat16)
next
  show "utflen s8 = zero_sum_positions s8"
    by (simp add: utflen_def zero_sum_positions_def utflen_loop_positions)
next
  show "utflen s16 = zero_sum_positions s16"
    by (simp add: utflen_def zero_sum_positions_def utflen_loop_positions)
next
  show "utflen s32 = length s32"
    by (simp add: utflen_def)
qed

theorem utflen_counts_code_points_witness:
  "utf8_code_point [0x24] \<and> utf8_code_point [0xE2, 0x82, 0xAC] \<and>
   utf8_code_point [0xC3, 0xA9] \<and> utf8_code_point [0xF0, 0x9F, 0x98, 0x80] \<and>
   utflen [0x24, 0xE2, 0x82, 0xAC, 0xC3, 0xA9, 0xF0, 0x9F, 0x98, 0x80 :: 8 word] = 4 \<and>
   utf16_code_point [0x41] \<and> utf16_code_point [0xD83D, 0xDE00] \<and>
   utflen [0x41, 0xD83D, 0xDE00 :: 16 word] = 2 \<and>
   utflen [0x41, 0x1F600 :: 32 word] = 2"
  using utflen_counts_code_points
    [of "[[0x24], [0xE2, 0x82, 0xAC], [0xC3, 0xA9], [0xF0, 0x9F, 0x98, 0x80]]"
        "[[0x41], [0xD83D, 0xDE00]]" "[]" "[]" "[0x41, 0x1F600]"]
  by (simp add: utf8_cont_def)

section \<open>Evaluating the loops\<close>

lemma flush_loop_more:
  "flush_more all_cells (fst st) \<Longrightarrow>
   flush_loop all_cells st =
     (case flush_step all_cells st of
        Inl err \<Rightarrow> Some (Inl err)
      | Inr st' \<Rightarrow> flush_loop all_cells st')"
  by (subst flush_loop.simps) simp

lemma flush_loop_done:
  "\<not> flush_more all_cells (fst st) \<Longrightarrow> flush_loop all_cells st = Some (Inr st)"
  by (subst flush_loop.simps) simp

lemma draw_segment_loop_0: "draw_segment_loop line i score 0 sbuf = Some sbuf"
  by (subst draw_segment_loop.simps) simp

lemma draw_segment_loop_pos:
  "0 < w \<Longrightarrow> draw_segment_loop line i score w sbuf =
     (let score' = score + utf_char_score (line ! i);
          sbuf' = sbuf @ [line ! i];
          i' = (if i + 1 = length line then 0 else i + 1)
      in draw_segment_loop line i' score' (if score' = 0 then w - 1 else w) sbuf')"
  by (subst draw_segment_loop.simps) simp

lemma replicate_numeral: "replicate (numeral k) x = x # replicate (pred_numeral k) x"
  by (simp add: numeral_eq_Suc)

lemma run_append:
  "run (ms @ ms') st =
     (case run ms st of
        None \<Rightarrow> None
      | Some (Inl err) \<Rightarrow> Some (Inl err)
      | Some (Inr st') \<Rightarrow> run ms' st')"
  by (induction ms arbitrary: st) (auto split: option.splits sum.splits)

lemmas cell_defs = cell_info_default_def cell_info_ctor_def cell_info_init_def UTF8_ELLIPSIS_def
  SLI_def utflen_def utf_char_score_def

lemmas write_line_defs = write_line_def write_line_tail_def truncate_buf_def find_output_end_def
  find_last_word_def isspace_def size_sub_def size_add_def draw_fill_def fills_def Let_def
  replicate_numeral

lemmas manip_defs = put_string_def lift_tab_def tab_set_wrap_def tab_set_width_def
  tab_set_truncate_def tab_set_justify_def tab_set_pad_def
  on_current_cell_def set_wrap_def set_width_def set_truncate_def set_justify_def set_pad_def
  overflow_def not_eof_def eof_def to_char_type_def to_int_type_def putc_def

lemmas flush_defs = next_column_def sync_def indices_ok_def flush_def flush_loop_more
  flush_loop_done flush_more_def any_nonempty_def cell_empty_def flush_step_def
  draw_column_sep_def ascii_def PIPE_def PLUS_def DASH_def NUL_def

lemmas draw_line_defs = top_line_def horiz_line_def bottom_line_def draw_line_def
  draw_line_rule_def draw_segment_def draw_segment_loop_0 draw_segment_loop_pos
  get_cell_width_def

section \<open>The word-wrap scenario\<close>

lemma word_wrap_line1:
  "write_line ((default_cell 10)\<lparr>buf := SLI ''abcdef ghijkl'', wrap := wrap_word\<rparr>) sb True =
   Inr ((default_cell 10)\<lparr>buf := SLI ''ghijkl'', wrap := wrap_word\<rparr>,
        sb @ SLI '' abcdef     '', True)"
  by (simp add: write_line_defs cell_defs)

lemma word_wrap_line2:
  "write_line ((default_cell 10)\<lparr>buf := SLI ''ghijkl'', wrap := wrap_word\<rparr>) sb True =
   Inr ((default_cell 10)\<lparr>buf := [], wrap := wrap_word\<rparr>, sb @ SLI '' ghijkl     '', True)"
  by (simp add: write_line_defs cell_defs)

lemma word_wrap_puts:
  "run (Set_wrap wrap_word # put_string ''abcdef ghijkl'')
     (fst (basic_tabulator this os [default_cell 10]), sb) =
   Some (Inr (fst (basic_tabulator this os
                [(default_cell 10)\<lparr>buf := SLI ''abcdef ghijkl'', wrap := wrap_word\<rparr>]), sb))"
  by (simp add: basic_tabulator_def manip_defs cell_defs)

lemma word_wrap_endc:
  "next_column (fst (basic_tabulator this os
       [(default_cell 10)\<lparr>buf := SLI ''abcdef ghijkl'', wrap := wrap_word\<rparr>]), sb) =
   Some (Inr (fst (basic_tabulator this os [(default_cell 10)\<lparr>wrap := wrap_word\<rparr>]),
              sb @ SLI ''| abcdef     |\<newline>| ghijkl     |\<newline>''))"
  by (simp add: basic_tabulator_def flush_defs
      word_wrap_line1[unfolded cell_defs, simplified]
      word_wrap_line2[unfolded cell_defs, simplified] cell_defs)

text \<open>
  Claim C1. A tabulator is constructed on a stream with the single cell
  \<open>cell_info(10)\<close> (default padding, style \<open>ascii\<close>); \<open>set_wrap(wrap::word)\<close>, the
  thirteen characters of \<open>"abcdef ghijkl"\<close> and one \<open>endc\<close> are written. The run
  returns, and the wrapped streambuf has received exactly the two lines
  \<open>"| abcdef     |\n| ghijkl     |\n"\<close> after what it held before; the cell's buffer
  is empty again.
\<close>

theorem word_wrap_scenario:
  "cell_info_default 10 = Inr (default_cell 10) \<and>
   run (Set_wrap wrap_word # put_string ''abcdef ghijkl'' @ [Endc])
     (fst (basic_tabulator this os [default_cell 10]), sb) =
   Some (Inr (fst (basic_tabulator this os [(default_cell 10)\<lparr>wrap := wrap_word\<rparr>]),
              sb @ SLI ''| abcdef     |\<newline>| ghijkl     |\<newline>''))"
proof
  show "cell_info_default 10 = Inr (default_cell 10)"
    by (simp add: cell_info_default_def cell_info_ctor_def UTF8_ELLIPSIS_def utflen_def
        utf_char_score_def)
next
  have "run ((Set_wrap wrap_word # put_string ''abcdef ghijkl'') @ [Endc])
          (fst (basic_tabulator this os [default_cell 10]), sb) =
        Some (Inr (fst (basic_tabulator this os [(default_cell 10)\<lparr>wrap := wrap_word\<rparr>]),
                   sb @ SLI ''| abcdef     |\<newline>| ghijkl     |\<newline>''))"
    unfolding run_append word_wrap_puts by (simp add: word_wrap_endc)
  then show "run (Set_wrap wrap_word # put_string ''abcdef ghijkl'' @ [Endc])
          (fst (basic_tabulator this os [default_cell 10]), sb) =
        Some (Inr (fst (basic_tabulator this os [(default_cell 10)\<lparr>wrap := wrap_word\<rparr>]),
                   sb @ SLI ''| abcdef     |\<newline>| ghijkl     |\<newline>''))"
    by simp
qed

section \<open>Horizontal rules and the empty row\<close>

lemma zero_cell_newline:
  "write_line ((default_cell 0)\<lparr>buf := [0x0A]\<rparr>) sb True =
   Inr (default_cell 0, sb @ SLI ''  '', True)"
  by (simp add: write_line_defs cell_defs)

lemma zero_cell_empty:
  "write_line (default_cell 0) sb True = Inr (default_cell 0, sb @ SLI ''  '', True)"
  by (simp add: write_line_defs cell_defs)

lemma ascii_rule:
  "r \<in> {style_top ascii, style_middle ascii, style_bottom ascii} \<Longrightarrow>
   draw_line r (fst (basic_tabulator this os [default_cell 0, default_cell 0]), sb) =
   Some (Inr (fst (basic_tabulator this os [default_cell 0, default_cell 0]),
              sb @ SLI ''+--+--+\<newline>''))"
  by (auto simp add: basic_tabulator_def draw_line_defs indices_ok_def ascii_def PLUS_def
      DASH_def cell_defs size_add_def)

lemma ascii_empty_row:
  "run [Put 0x0A, Endc, Endc]
     (fst (basic_tabulator this os [default_cell 0, default_cell 0]), sb) =
   Some (Inr (fst (basic_tabulator this os [default_cell 0, default_cell 0]),
              sb @ SLI ''|  |  |\<newline>''))"
  by (simp add: basic_tabulator_def manip_defs flush_defs
      zero_cell_newline[unfolded cell_defs, simplified]
      zero_cell_empty[unfolded cell_defs, simplified] cell_defs)

text \<open>
  Claim C2. A tabulator constructed on two cells \<open>cell_info(0)\<close> has the style
  \<open>ascii\<close>. On it, each of \<open>top_line\<close>, \<open>horiz_line\<close> and \<open>bottom_line\<close> returns and
  sends exactly \<open>"+--+--+\n"\<close> to the wrapped streambuf, leaving the tabulator as it
  was; and writing \<open>'\n'\<close> followed by two \<open>endc\<close> returns and sends exactly the
  empty row \<open>"|  |  |\n"\<close>.
\<close>

theorem ascii_rules_and_empty_row:
  "cell_info_default 0 = Inr (default_cell 0) \<and>
   style (fst (basic_tabulator this os cs)) = ascii \<and>
   top_line (fst (basic_tabulator this os [default_cell 0, default_cell 0]), sb) =
     Some (Inr (fst (basic_tabulator this os [default_cell 0, default_cell 0]),
                sb @ SLI ''+--+--+\<newline>'')) \<and>
   horiz_line (fst (basic_tabulator this os [default_cell 0, default_cell 0]), sb) =
     Some (Inr (fst (basic_tabulator this os [default_cell 0, default_cell 0]),
                sb @ SLI ''+--+--+\<newline>'')) \<and>
   bottom_line (fst (basic_tabulator this os [default_cell 0, default_cell 0]), sb) =
     Some (Inr (fst (basic_tabulator this os [default_cell 0, default_cell 0]),
                sb @ SLI ''+--+--+\<newline>'')) \<and>
   run [Put 0x0A, Endc, Endc]
       (fst (basic_tabulator this os [default_cell 0, default_cell 0]), sb) =
     Some (Inr (fst (basic_tabulator this os [default_cell 0, default_cell 0]),
                sb @ SLI ''|  |  |\<newline>''))"
proof (intro conjI)
  show "cell_info_default 0 = Inr (default_cell 0)"
    by (simp add: cell_info_default_def cell_info_ctor_def)
  show "style (fst (basic_tabulator this os cs)) = ascii"
    by (simp add: basic_tabulator_def)
  show "top_line (fst (basic_tabulator this os [default_cell 0, default_cell 0]), sb) =
     Some (Inr (fst (basic_tabulator this os [default_cell 0, default_cell 0]),
                sb @ SLI ''+--+--+\<newline>''))"
    unfolding top_line_def by (rule ascii_rule) (simp add: basic_tabulator_def)
  show "horiz_line (fst (basic_tabulator this os [default_cell 0, default_cell 0]), sb) =
     Some (Inr (fst (basic_tabulator this os [default_cell 0, default_cell 0]),
                sb @ SLI ''+--+--+\<newline>''))"
    unfolding horiz_line_def by (rule ascii_rule) (simp add: basic_tabulator_def)
  show "bottom_line (fst (basic_tabulator this os [default_cell 0, default_cell 0]), sb) =
     Some (Inr (fst (basic_tabulator this os [default_cell 0, default_cell 0]),
                sb @ SLI ''+--+--+\<newline>''))"
    unfolding bottom_line_def by (rule ascii_rule) (simp add: basic_tabulator_def)
  show "run [Put 0x0A, Endc, Endc]
       (fst (basic_tabulator this os [default_cell 0, default_cell 0]), sb) =
     Some (Inr (fst (basic_tabulator this os [default_cell 0, default_cell 0]),
                sb @ SLI ''|  |  |\<newline>''))"
    by (rule ascii_empty_row)
qed

section \<open>Truncating cells\<close>

text \<open>
  Claim C3, evaluated where it fails. The cell has width 10, \<open>truncate::right\<close> and
  \<open>wrap::word\<close>; its buffer holds the sixteen letters \<open>"abcdefghijklmnop"\<close>, with no
  whitespace. \<open>find_last_word\<close> finds no whitespace and returns one past the position
  \<open>find_line_end\<close> stopped at, so ten letters are kept instead of nine; with the ellipsis
  the buffer has eleven code points, \<open>truncate_buf\<close> returns \<open>cend()\<close>, and the loop
  of \<open>write_line\<close> that walks \<open>end\<close> back starts by reading \<open>*end\<close> there. Both the call
  of \<open>write_line\<close> and the run through the stream end in that read.
\<close>

theorem truncate_word_wrap_end_read:
  "write_line ((default_cell 10)\<lparr>buf := SLI ''abcdefghijklmnop'',
                  truncate_policy := truncate_right, wrap := wrap_word\<rparr>) [] True =
     Inl EndDereferenced \<and>
   run (Set_truncate truncate_right # Set_wrap wrap_word # put_string ''abcdefghijklmnop''
          @ [Endc])
     (fst (basic_tabulator 1 \<lparr>rdbuf = 0\<rparr> [default_cell 10]), []) =
     Some (Inl EndDereferenced)"
  by (simp add: basic_tabulator_def manip_defs flush_defs write_line_defs cell_defs)

section \<open>Character intake\<close>

lemma to_int_type_not_eof: "to_int_type u \<noteq> eof"
proof -
  have "0 \<le> uint u" by simp
  then have "uint u \<noteq> - 1" by arith
  then show ?thesis by (simp add: to_int_type_def eof_def)
qed

text \<open>What \<open>overflow\<close> does with a value that is neither \<open>eof\<close> nor 0.\<close>

lemma overflow_appends_nonzero:
  assumes "column t < length (cells t)" and "ch \<noteq> eof" and "ch \<noteq> 0"
  shows "overflow ch t =
           Inr (t\<lparr>cells := (cells t)[column t := putc (to_char_type ch) (cells t ! column t)]\<rparr>)"
  using assms by (simp add: overflow_def not_eof_def on_current_cell_def)

text \<open>
  Claim C5, evaluated where it fails. The character NUL reaches \<open>overflow\<close> as the
  value 0, which is not \<open>eof\<close>; \<open>not_eof(0)\<close> is 0, the \<open>if\<close> of \<open>overflow\<close> takes it
  for false, and the tabulator is left as it was, in every state. Through the stream:
  one cell of width 0, the three characters \<open>'a'\<close>, NUL, \<open>'b'\<close>, then \<open>endc\<close>; the
  wrapped streambuf receives \<open>"| ab |\n"\<close>, without the NUL.
\<close>

theorem overflow_drops_nul:
  "to_int_type 0 = 0 \<and> to_int_type 0 \<noteq> eof \<and>
   overflow (to_int_type 0) t = Inr t \<and>
   run [Put 0x61, Put 0, Put 0x62, Endc]
     (fst (basic_tabulator 1 \<lparr>rdbuf = 0\<rparr> [default_cell 0]), []) =
     Some (Inr (fst (basic_tabulator 1 \<lparr>rdbuf = 0\<rparr> [default_cell 0]), SLI ''| ab |\<newline>''))"
proof (intro conjI)
  show "to_int_type 0 = 0"
    by (simp add: to_int_type_def)
  show "to_int_type 0 \<noteq> eof"
    by (rule to_int_type_not_eof)
  show "overflow (to_int_type 0) t = Inr t"
    by (simp add: overflow_def not_eof_def to_int_type_def eof_def)
  show "run [Put 0x61, Put 0, Put 0x62, Endc]
     (fst (basic_tabulator 1 \<lparr>rdbuf = 0\<rparr> [default_cell 0]), []) =
     Some (Inr (fst (basic_tabulator 1 \<lparr>rdbuf = 0\<rparr> [default_cell 0]), SLI ''| ab |\<newline>''))"
    by (simp add: basic_tabulator_def manip_defs flush_defs write_line_defs cell_defs)
qed

section \<open>Construction and destruction\<close>

lemma on_current_cell_real_sb:
  "on_current_cell f t = Inr t' \<Longrightarrow> real_sb t' = real_sb t"
  by (auto simp: on_current_cell_def split: if_splits sum.splits)

lemma flush_step_real_sb:
  "flush_step a st = Inr st' \<Longrightarrow> real_sb (fst st') = real_sb (fst st)"
  by (auto simp: flush_step_def Let_def split: option.splits if_splits sum.splits prod.splits)

lemma flush_loop_real_sb_aux:
  assumes "flush_loop a st = Some r"
  shows "\<forall>st'. r = Inr st' \<longrightarrow> real_sb (fst st') = real_sb (fst st)"
proof (rule flush_loop.raw_induct
    [where P = "\<lambda>a st r. \<forall>st'. r = Inr st' \<longrightarrow> real_sb (fst st') = real_sb (fst st)",
      OF _ assms])
  fix f a st r
  assume IH: "\<And>a st r. f a st = Some r \<Longrightarrow>
                \<forall>st'. r = Inr st' \<longrightarrow> real_sb (fst st') = real_sb (fst st)"
    and eq: "(if flush_more a (fst st)
              then case flush_step a st of Inl err \<Rightarrow> Some (Inl err) | Inr st' \<Rightarrow> f a st'
              else Some (Inr st)) = Some r"
  show "\<forall>st'. r = Inr st' \<longrightarrow> real_sb (fst st') = real_sb (fst st)"
  proof (cases "flush_more a (fst st)")
    case False
    with eq show ?thesis by auto
  next
    case True
    show ?thesis
    proof (cases "flush_step a st")
      case (Inl err)
      with True eq show ?thesis by auto
    next
      case (Inr st1)
      with True eq have "f a st1 = Some r" by simp
      from IH[OF this] flush_step_real_sb[OF Inr] show ?thesis by simp
    qed
  qed
qed

lemma flush_loop_real_sb:
  "flush_loop a st = Some (Inr st') \<Longrightarrow> real_sb (fst st') = real_sb (fst st)"
  using flush_loop_real_sb_aux by blast

lemma flush_real_sb:
  "flush a st = Some (Inr st') \<Longrightarrow> real_sb (fst st') = real_sb (fst st)"
  by (auto simp: flush_def split: if_splits dest: flush_loop_real_sb)

lemma next_column_real_sb:
  "next_column st = Some (Inr st') \<Longrightarrow> real_sb (fst st') = real_sb (fst st)"
  by (auto simp: next_column_def Let_def split: if_splits dest: flush_real_sb)

lemma draw_line_rule_real_sb:
  "draw_line_rule r st = Some (Inr st') \<Longrightarrow> real_sb (fst st') = real_sb (fst st)"
  by (auto simp: draw_line_rule_def Let_def split: if_splits option.splits)

lemma draw_line_real_sb:
  "draw_line r st = Some (Inr st') \<Longrightarrow> real_sb (fst st') = real_sb (fst st)"
  by (auto simp: draw_line_def Let_def split: if_splits option.splits sum.splits
      dest!: flush_real_sb draw_line_rule_real_sb)

lemma lift_tab_real_sb:
  "(\<And>t t'. f t = Inr t' \<Longrightarrow> real_sb t' = real_sb t) \<Longrightarrow>
   lift_tab f st = Some (Inr st') \<Longrightarrow> real_sb (fst st') = real_sb (fst st)"
  by (auto simp: lift_tab_def split: sum.splits)

lemma apply_manip_real_sb:
  "apply_manip m st = Some (Inr st') \<Longrightarrow> real_sb (fst st') = real_sb (fst st)"
proof (cases m)
  case (Put ch)
  then show "apply_manip m st = Some (Inr st') \<Longrightarrow> ?thesis"
    by (auto simp: overflow_def split: if_splits elim!: lift_tab_real_sb[rotated]
        dest: on_current_cell_real_sb)
qed (auto simp: top_line_def horiz_line_def bottom_line_def sync_def set_style_def
      tab_set_width_def tab_set_justify_def tab_set_truncate_def tab_set_wrap_def tab_set_pad_def
      dest: next_column_real_sb draw_line_real_sb flush_real_sb
      elim!: lift_tab_real_sb[rotated] on_current_cell_real_sb)

lemma run_real_sb:
  "run ms st = Some (Inr st') \<Longrightarrow> real_sb (fst st') = real_sb (fst st)"
proof (induction ms arbitrary: st)
  case Nil
  then show ?case by simp
next
  case (Cons m ms)
  then show ?case
    by (auto split: option.splits sum.splits dest!: apply_manip_real_sb)
qed

text \<open>
  Claim C6. A tabulator is constructed on a stream, by either constructor and on any
  cell list; any characters and manipulators are written; if that returns, destroying
  the tabulator leaves the stream with the streambuf it had before the construction.
  With nothing written in between (\<open>ms = []\<close>) this is construction followed at once
  by destruction.
\<close>

theorem destructor_restores_sink:
  "(run ms (fst (basic_tabulator this os cs), sb) = Some (Inr (t', sb')) \<longrightarrow>
      rdbuf (fst (destructor t' (snd (basic_tabulator this os cs), sb'))) = rdbuf os) \<and>
   (run ms (fst (basic_tabulator_copy this os cs), sb) = Some (Inr (t', sb')) \<longrightarrow>
      rdbuf (fst (destructor t' (snd (basic_tabulator_copy this os cs), sb'))) = rdbuf os)"
  by (auto simp: destructor_def basic_tabulator_def basic_tabulator_copy_def dest!: run_real_sb)

theorem destructor_restores_sink_witness:
  "run [] (fst (basic_tabulator 1 \<lparr>rdbuf = 0\<rparr> [default_cell 10]), []) =
     Some (Inr (fst (basic_tabulator 1 \<lparr>rdbuf = 0\<rparr> [default_cell 10]), [])) \<and>
   rdbuf (snd (basic_tabulator 1 \<lparr>rdbuf = 0\<rparr> [default_cell 10])) = 1 \<and>
   rdbuf (fst (destructor (fst (basic_tabulator 1 \<lparr>rdbuf = 0\<rparr> [default_cell 10]))
                 (snd (basic_tabulator 1 \<lparr>rdbuf = 0\<rparr> [default_cell 10]), []))) = 0 \<and>
   run [] (fst (basic_tabulator_copy 1 \<lparr>rdbuf = 0\<rparr> [default_cell 10]), []) =
     Some (Inr (fst (basic_tabulator_copy 1 \<lparr>rdbuf = 0\<rparr> [default_cell 10]), [])) \<and>
   rdbuf (fst (destructor (fst (basic_tabulator_copy 1 \<lparr>rdbuf = 0\<rparr> [default_cell 10]))
                 (snd (basic_tabulator_copy 1 \<lparr>rdbuf = 0\<rparr> [default_cell 10]), []))) = 0"
  using destructor_restores_sink
    [of "[]" 1 "\<lparr>rdbuf = 0\<rparr>" "[default_cell 10]" "[]"
        "fst (basic_tabulator 1 \<lparr>rdbuf = 0\<rparr> [default_cell 10])" "[]"]
    destructor_restores_sink
    [of "[]" 1 "\<lparr>rdbuf = 0\<rparr>" "[default_cell 10]" "[]"
        "fst (basic_tabulator_copy 1 \<lparr>rdbuf = 0\<rparr> [default_cell 10])" "[]"]
  by (simp add: basic_tabulator_def basic_tabulator_copy_def)

text \<open>
  The destructor against claim C7: a tabulator whose only cell holds \<open>"abc"\<close> has a
  row pending; \<open>flush(true)\<close> would send \<open>"| abc        |\n"\<close> to the wrapped streambuf,
  and the destructor sends nothing.
\<close>

theorem destructor_drains_counterexample:
  "pending_row (fst (basic_tabulator 1 \<lparr>rdbuf = 0\<rparr> [(default_cell 10)\<lparr>buf := SLI ''abc''\<rparr>])) \<and>
   flush True (fst (basic_tabulator 1 \<lparr>rdbuf = 0\<rparr> [(default_cell 10)\<lparr>buf := SLI ''abc''\<rparr>]), []) =
     Some (Inr (fst (basic_tabulator 1 \<lparr>rdbuf = 0\<rparr> [default_cell 10]),
                SLI ''| abc        |\<newline>'')) \<and>
   snd (destructor (fst (basic_tabulator 1 \<lparr>rdbuf = 0\<rparr> [(default_cell 10)\<lparr>buf := SLI ''abc''\<rparr>]))
          (\<lparr>rdbuf = 1\<rparr>, [])) = []"
  by (simp add: pending_row_def destructor_def basic_tabulator_def flush_defs write_line_defs
      cell_defs)

text \<open>
  Claim C7, amended. In every state of the tabulator, a row pending or not, the
  destructor restores the stream's streambuf to the wrapped one and sends nothing to
  it: what the cells still hold is discarded with them, so nothing of the tabulator
  can appear among later writes to the stream.
\<close>

theorem destructor_writes_nothing:
  "destructor t (os, sb) = (os\<lparr>rdbuf := real_sb t\<rparr>, sb)"
  by (simp add: destructor_def)

section \<open>The setters and the width invariant\<close>

text \<open>
  Claim C8, evaluated where it fails. \<open>cell_info(0)\<close> has the one-code-point ellipsis;
  \<open>set_width(1)\<close> asserts on the width it replaces (0) and returns a cell of width 1.
  \<open>cell_info(3)\<close> is valid; \<open>set_ellipsis(".....")\<close> asserts on the ellipsis it replaces
  and returns a cell of width 3 whose ellipsis has five code points. Neither call
  fails, and both results break \<open>width = 0 \<or> width > utflen ellipsis\<close>.
\<close>

theorem setters_miss_violation:
  "cell_info_default 0 = Inr (default_cell 0) \<and>
   utflen UTF8_ELLIPSIS = 1 \<and>
   set_width 1 (default_cell 0) = Inr (default_cell 1) \<and>
   cell_info_default 3 = Inr (default_cell 3) \<and>
   utflen (SLI ''.....'') = 5 \<and>
   set_ellipsis (SLI ''.....'') (default_cell 3) =
     Inr (cell_info_init 3 (SLI '' '') (SLI '' '') (SLI ''.....''))"
  by (simp add: set_width_def set_ellipsis_def cell_defs)

section \<open>The front of the drained buffer\<close>

text \<open>
  Claim C9, evaluated where it fails. A cell of width 0 holds \<open>"hello"\<close> and
  \<open>write_line\<close> is called with \<open>write_full_line = false\<close>: the whole buffer is drained,
  \<open>wrote_full\<close> is still false, and \<open>_buf.front()\<close> is read on the empty buffer.
  Through the stream: one cell of width 0, \<open>"hello"\<close>, then \<open>std::flush\<close>.
\<close>

theorem front_of_empty_buffer_read:
  "write_line ((default_cell 0)\<lparr>buf := SLI ''hello''\<rparr>) [] False = Inl FrontOfEmpty \<and>
   run (put_string ''hello'' @ [Flush])
     (fst (basic_tabulator 1 \<lparr>rdbuf = 0\<rparr> [default_cell 0]), []) = Some (Inl FrontOfEmpty)"
  by (simp add: basic_tabulator_def manip_defs flush_defs write_line_defs cell_defs)

section \<open>The line-start latch after construction\<close>

text \<open>
  Claim C10, evaluated where it fails. The constructor taking \<open>cells_type&&\<close> sets
  \<open>_line_start\<close> to true; the one taking \<open>cells_type const&\<close> leaves it indeterminate,
  and the first flush reads it.
\<close>

theorem copy_constructor_line_start:
  "line_start (fst (basic_tabulator this os cs)) = Some True \<and>
   line_start (fst (basic_tabulator_copy this os cs)) = None \<and>
   run (put_string ''a'' @ [Endc])
     (fst (basic_tabulator_copy 1 \<lparr>rdbuf = 0\<rparr> [default_cell 0]), []) =
     Some (Inl Uninitialised)"
  by (simp add: basic_tabulator_def basic_tabulator_copy_def manip_defs flush_defs cell_defs)

end
